theory Spec2Isabelle
  imports Complex_Main "HOL-Library.Word" "HOL-Library.Monad_Syntax"
begin

section \<open>The SCT-013 RMS monitor (scripts/auto-calibration.ino)\<close>

text \<open>
  The sketch samples an ADS1115 converter, reduces the samples to an RMS voltage, scales it
  by a calibration factor and lets the operator derive and store a new factor over the
  serial console. The model below follows the sketch function by function. What the
  sketch does beyond computing values is made explicit in a state record: the global
  \<open>calibrationFactor\<close>, the non-volatile store behind \<open>prefs\<close>, the console in both
  directions, the converter and the clock.
\<close>

subsection \<open>Floating-point arithmetic\<close>

text \<open>
  The sketch computes with C \<open>float\<close> and \<open>double\<close>. Their operations are a parameter of
  the model: a record of the operations the sketch uses, over a type \<open>'f\<close> of floats and a
  type \<open>'d\<close> of doubles. Every theorem that does not constrain the record holds for each
  arithmetic, the IEEE 754 one of the ESP32 included. \<open>toFloat\<close> is \<open>String::toFloat\<close> of the
  Arduino core, \<open>dle\<close> the comparison \<open>\<le>\<close> of doubles (the sketch does not use it; the
  properties of the accumulated sum are stated with it).
\<close>

record ('f, 'd) arith =
  flit :: "real \<Rightarrow> 'f"
  dlit :: "real \<Rightarrow> 'd"
  i2f :: "int \<Rightarrow> 'f"
  i2d :: "int \<Rightarrow> 'd"
  f2d :: "'f \<Rightarrow> 'd"
  d2f :: "'d \<Rightarrow> 'f"
  fmul :: "'f \<Rightarrow> 'f \<Rightarrow> 'f"
  fdiv :: "'f \<Rightarrow> 'f \<Rightarrow> 'f"
  fsqrt :: "'f \<Rightarrow> 'f"
  fle :: "'f \<Rightarrow> 'f \<Rightarrow> bool"
  flt :: "'f \<Rightarrow> 'f \<Rightarrow> bool"
  dadd :: "'d \<Rightarrow> 'd \<Rightarrow> 'd"
  dmul :: "'d \<Rightarrow> 'd \<Rightarrow> 'd"
  ddiv :: "'d \<Rightarrow> 'd \<Rightarrow> 'd"
  dle :: "'d \<Rightarrow> 'd \<Rightarrow> bool"
  toFloat :: "string \<Rightarrow> 'f"

subsection \<open>Constants of the sketch\<close>

definition ADS_LSB :: "('f, 'd) arith \<Rightarrow> 'f" where
  "ADS_LSB A = fdiv A (flit A 2.048) (flit A 32768)"

definition SAMPLES :: int where
  "SAMPLES = 1600"

definition SAMPLE_DELAY_US :: nat where
  "SAMPLE_DELAY_US = 1150"

definition PREF_KEY :: string where
  "PREF_KEY = ''sct_factor''"

definition PREF_NAMESPACE :: string where
  "PREF_NAMESPACE = ''sct_conf''"

definition IGNORE_THRESHOLD_A :: "('f, 'd) arith \<Rightarrow> 'f" where
  "IGNORE_THRESHOLD_A A = flit A 0.001"

subsection \<open>State\<close>

text \<open>
  What \<open>Serial.print\<close> and \<open>Serial.println\<close> write: a text, or a float with its number of
  decimals.
\<close>

datatype 'f event =
    Print string
  | Println string
  | PrintNum 'f nat
  | PrintlnNum 'f nat

text \<open>
  \<^item> \<open>calibrationFactor\<close>: the global of the sketch;
  \<^item> \<open>nvs\<close>: the non-volatile store, a float under a namespace and a key;
    \<open>prefs_ns\<close>: the namespace \<open>prefs\<close> has open, if it has one;
  \<^item> \<open>ads_present\<close>: what \<open>ads.begin()\<close> answers;
    \<open>adc\<close>: the conversion results of the ADS1115 in the order they are read,
    \<open>adc_pos\<close>: how many have been read;
  \<^item> \<open>now\<close>: microseconds since power-on. Time passes in \<open>delay\<close> and
    \<open>delayMicroseconds\<close> only;
  \<^item> \<open>inbox\<close>: the console bytes not read yet, each with the time from which it is in the
    receive buffer;
  \<^item> \<open>out\<close>: what has been written to the console;
  \<^item> \<open>t0\<close>: the static local of \<open>loop\<close>, \<open>None\<close> until \<open>loop\<close> first reaches it.
\<close>

record 'f state =
  calibrationFactor :: 'f
  nvs :: "string \<times> string \<rightharpoonup> 'f"
  prefs_ns :: "string option"
  ads_present :: bool
  adc :: "nat \<Rightarrow> 16 word"
  adc_pos :: nat
  now :: nat
  inbox :: "(nat \<times> char) list"
  out :: "'f event list"
  t0 :: "32 word option"

subsection \<open>The platform: console, clock, converter, preferences\<close>

definition Serial_print :: "string \<Rightarrow> 'f state \<Rightarrow> 'f state" where
  "Serial_print s st = st\<lparr>out := out st @ [Print s]\<rparr>"

definition Serial_println :: "string \<Rightarrow> 'f state \<Rightarrow> 'f state" where
  "Serial_println s st = st\<lparr>out := out st @ [Println s]\<rparr>"

definition Serial_print_float :: "'f \<Rightarrow> nat \<Rightarrow> 'f state \<Rightarrow> 'f state" where
  "Serial_print_float x digits st = st\<lparr>out := out st @ [PrintNum x digits]\<rparr>"

definition Serial_println_float :: "'f \<Rightarrow> nat \<Rightarrow> 'f state \<Rightarrow> 'f state" where
  "Serial_println_float x digits st = st\<lparr>out := out st @ [PrintlnNum x digits]\<rparr>"

definition Serial_available :: "'f state \<Rightarrow> bool" where
  "Serial_available st = (case inbox st of [] \<Rightarrow> False | (t, c) # rest \<Rightarrow> t \<le> now st)"

text \<open>\<open>Serial.read()\<close> answers -1 on an empty buffer, which is the byte 0xFF as a \<open>char\<close>.\<close>

definition Serial_read :: "'f state \<Rightarrow> char \<times> 'f state" where
  "Serial_read st =
     (case inbox st of
        [] \<Rightarrow> (CHR 0xFF, st)
      | (t, c) # rest \<Rightarrow> if t \<le> now st then (c, st\<lparr>inbox := rest\<rparr>) else (CHR 0xFF, st))"

definition delay :: "nat \<Rightarrow> 'f state \<Rightarrow> 'f state" where
  "delay ms st = st\<lparr>now := now st + 1000 * ms\<rparr>"

definition delayMicroseconds :: "nat \<Rightarrow> 'f state \<Rightarrow> 'f state" where
  "delayMicroseconds us st = st\<lparr>now := now st + us\<rparr>"

definition millis :: "'f state \<Rightarrow> 32 word" where
  "millis st = word_of_nat (now st div 1000)"

definition readADC_Differential_0_1 :: "'f state \<Rightarrow> 16 word \<times> 'f state" where
  "readADC_Differential_0_1 st = (adc st (adc_pos st), st\<lparr>adc_pos := Suc (adc_pos st)\<rparr>)"

text \<open>
  The \<open>Preferences\<close> object: \<open>begin\<close> opens a namespace unless one is open; the other
  operations work on the open namespace and do nothing without one.
\<close>

definition prefs_begin :: "string \<Rightarrow> 'f state \<Rightarrow> 'f state" where
  "prefs_begin ns st = (case prefs_ns st of None \<Rightarrow> st\<lparr>prefs_ns := Some ns\<rparr> | Some _ \<Rightarrow> st)"

definition prefs_isKey :: "string \<Rightarrow> 'f state \<Rightarrow> bool" where
  "prefs_isKey key st =
     (case prefs_ns st of None \<Rightarrow> False | Some ns \<Rightarrow> nvs st (ns, key) \<noteq> None)"

definition prefs_getFloat :: "string \<Rightarrow> 'f \<Rightarrow> 'f state \<Rightarrow> 'f" where
  "prefs_getFloat key dflt st =
     (case prefs_ns st of
        None \<Rightarrow> dflt
      | Some ns \<Rightarrow> (case nvs st (ns, key) of None \<Rightarrow> dflt | Some v \<Rightarrow> v))"

definition prefs_putFloat :: "string \<Rightarrow> 'f \<Rightarrow> 'f state \<Rightarrow> 'f state" where
  "prefs_putFloat key v st =
     (case prefs_ns st of None \<Rightarrow> st | Some ns \<Rightarrow> st\<lparr>nvs := (nvs st)((ns, key) \<mapsto> v)\<rparr>)"

definition prefs_remove :: "string \<Rightarrow> 'f state \<Rightarrow> 'f state" where
  "prefs_remove key st =
     (case prefs_ns st of None \<Rightarrow> st | Some ns \<Rightarrow> st\<lparr>nvs := (nvs st)((ns, key) := None)\<rparr>)"

subsection \<open>The sampler: \<open>measure_vrms\<close> and \<open>measure_irms\<close>\<close>

text \<open>
  The \<open>for\<close> loop of \<open>measure_vrms\<close> (lines 98 to 103), from the counter \<open>i\<close> and the sum
  so far: one conversion, its voltage as a float, the square added in doubles, the pause.
\<close>

function vrms_loop ::
  "('f, 'd) arith \<Rightarrow> int \<Rightarrow> int \<Rightarrow> 'd \<Rightarrow> 'f state \<Rightarrow> 'd \<times> 'f state" where
  "vrms_loop A samples i sumsq st =
     (if i < samples then
        (let (raw, st1) = readADC_Differential_0_1 st;
             v = fmul A (i2f A (sint raw)) (ADS_LSB A);
             sumsq' = dadd A sumsq (dmul A (f2d A v) (f2d A v));
             st2 = delayMicroseconds SAMPLE_DELAY_US st1
         in vrms_loop A samples (i + 1) sumsq' st2)
      else (sumsq, st))"
  by pat_completeness auto
termination
  by (relation "measure (\<lambda>(A, samples, i, sumsq, st). nat (samples - i))") auto

declare vrms_loop.simps [simp del]

definition measure_vrms :: "('f, 'd) arith \<Rightarrow> int \<Rightarrow> 'f state \<Rightarrow> 'f \<times> 'f state" where
  "measure_vrms A samples st =
     (let (sumsq, st') = vrms_loop A samples 0 (dlit A 0) st;
          meanSq = d2f A (ddiv A sumsq (i2d A samples))
      in (fsqrt A meanSq, st'))"

definition measure_irms :: "('f, 'd) arith \<Rightarrow> 'f state \<Rightarrow> 'f \<times> 'f state" where
  "measure_irms A st =
     (let (vrms, st') = measure_vrms A SAMPLES st;
          irms = fmul A vrms (calibrationFactor st')
      in (irms, st'))"

subsection \<open>The interactive calibration\<close>

text \<open>
  \<open>while (!Serial.available()) delay(10);\<close> (lines 127 to 130 and 164 to 167). With no
  byte left to arrive the loop never ends: the model answers \<open>None\<close>.
\<close>

function wait_available :: "'f state \<Rightarrow> 'f state option" where
  "wait_available st =
     (if inbox st = [] then None
      else if Serial_available st then Some st
      else wait_available (delay 10 st))"
  by pat_completeness auto
termination
  by (relation "measure (\<lambda>st. fst (hd (inbox st)) - now st)")
    (auto simp: Serial_available_def delay_def split: list.splits)

declare wait_available.simps [simp del]

text \<open>\<open>while (Serial.available()) Serial.read();\<close> (lines 131 and 132).\<close>

function clear_buffer :: "'f state \<Rightarrow> 'f state" where
  "clear_buffer st =
     (if Serial_available st then clear_buffer (snd (Serial_read st)) else st)"
  by pat_completeness auto
termination
  by (relation "measure (\<lambda>st. length (inbox st))")
    (auto simp: Serial_available_def Serial_read_def split: list.splits)

declare clear_buffer.simps [simp del]

text \<open>
  The loop that reads the operator's line (lines 143 to 151), from the text read so far.
  \<open>continue\<close> on a carriage return skips the pause, \<open>break\<close> on a line feed ends the
  loop. With no byte left to arrive the loop never ends.
\<close>

function read_line :: "string \<Rightarrow> 'f state \<Rightarrow> (string \<times> 'f state) option" where
  "read_line s st =
     (if inbox st = [] then None
      else if Serial_available st then
        (let (c, st1) = Serial_read st
         in if c = CHR 0x0D then read_line s st1
            else if c = CHR 0x0A then Some (s, st1)
            else read_line (s @ [c]) (delay 10 st1))
      else read_line s (delay 10 st))"
  by pat_completeness auto
termination
  by (relation "measures [\<lambda>(s, st). length (inbox st), \<lambda>(s, st). fst (hd (inbox st)) - now st]")
    (auto simp: Serial_available_def Serial_read_def delay_def split: list.splits if_splits)

declare read_line.simps [simp del]

text \<open>
  \<open>interactiveCalibration\<close> in two parts. Lines 125 to 151: wait for a byte, empty the
  buffer, measure, report the voltage in millivolts, read the line. The part answers the
  measured voltage and the text read.
\<close>

definition calibration_acquire ::
  "('f, 'd) arith \<Rightarrow> 'f state \<Rightarrow> ('f \<times> string \<times> 'f state) option" where
  "calibration_acquire A st =
     do {
       st1 \<leftarrow> wait_available
         (Serial_println ''Place known load (resistive). Press ENTER to start measure.''
           (Serial_println ''=== Interactive calibration ==='' st));
       let st2 = clear_buffer st1;
       let (vrms, st3) = measure_vrms A SAMPLES (Serial_println ''Measure in progress...'' st2);
       let st4 = Serial_println '' mV''
         (Serial_print_float (fmul A vrms (flit A 1000)) 4
           (Serial_print ''Vrms mesure = '' st3));
       (s, st5) \<leftarrow> read_line [] (Serial_println ''Put known current value in A :'' st4);
       Some (vrms, s, st5)
     }"

text \<open>
  Lines 152 to 177: parse the text, refuse a value that is not positive, compute the new
  factor, ask whether to save it, and set it.
\<close>

definition calibration_commit ::
  "('f, 'd) arith \<Rightarrow> 'f \<Rightarrow> string \<Rightarrow> 'f state \<Rightarrow> 'f state option" where
  "calibration_commit A vrms s st =
     (let iknown = toFloat A s in
      if fle A iknown (flit A 0) then Some (Serial_println ''Invalid value.'' st)
      else
        (let newFactor = fdiv A iknown vrms;
             st1 = Serial_println ''Save ? (y/n)''
               (Serial_println_float newFactor 6
                 (Serial_print ''New factor calculated = '' st))
         in do {
           st2 \<leftarrow> wait_available st1;
           let (r, st3) = Serial_read st2;
           let st4 =
             (if r = CHR ''y'' \<or> r = CHR ''Y'' then
                (let st' = st3\<lparr>calibrationFactor := newFactor\<rparr>
                 in Serial_println ''Factor saved in NVS.''
                      (prefs_putFloat PREF_KEY (calibrationFactor st') st'))
              else
                (Serial_println ''Calibration unsaved.'' st3)\<lparr>calibrationFactor := newFactor\<rparr>);
           Some (Serial_println ''=== Calibration finished ==='' st4)
         }))"

definition interactiveCalibration :: "('f, 'd) arith \<Rightarrow> 'f state \<Rightarrow> 'f state option" where
  "interactiveCalibration A st =
     do {
       (vrms, s, st1) \<leftarrow> calibration_acquire A st;
       calibration_commit A vrms s st1
     }"

subsection \<open>\<open>setup\<close> and \<open>loop\<close>\<close>

text \<open>
  The state at power-on: the globals as their initialisers leave them (line 20), no
  namespace open, the static local of \<open>loop\<close> not initialised yet, nothing written, the
  clock at zero. What survives a restart is the non-volatile store; the converter and
  the console are the environment's.
\<close>

definition power_on ::
  "('f, 'd) arith \<Rightarrow> (string \<times> string \<rightharpoonup> 'f) \<Rightarrow> bool \<Rightarrow> (nat \<Rightarrow> 16 word) \<Rightarrow>
     (nat \<times> char) list \<Rightarrow> 'f state" where
  "power_on A store present conv input =
     \<lparr>calibrationFactor = flit A 5, nvs = store, prefs_ns = None, ads_present = present,
      adc = conv, adc_pos = 0, now = 0, inbox = input, out = [], t0 = None\<rparr>"

text \<open>
  \<open>setup\<close> of the sketch (lines 30 to 55). Without the converter it prints the error
  and waits for ever: \<open>None\<close>.
\<close>

definition setup_sketch :: "('f, 'd) arith \<Rightarrow> 'f state \<Rightarrow> 'f state option" where
  "setup_sketch A st =
     (let st1 = Serial_println ''=== ESP32 SCT-013 RMS Monitor ===''
                  (Serial_println [] (delay 300 st))
      in if \<not> ads_present st1 then None
         else
           (let st2 = prefs_begin PREF_NAMESPACE st1;
                st3 =
                  (if prefs_isKey PREF_KEY st2 then
                     (let st' = st2\<lparr>calibrationFactor :=
                                      prefs_getFloat PREF_KEY (calibrationFactor st2) st2\<rparr>
                      in Serial_println_float (calibrationFactor st') 6
                           (Serial_print ''Calibration factor = '' st'))
                   else
                     Serial_println_float (calibrationFactor st2) 6
                       (Serial_print ''No saved calibration. Default factor = '' st2))
            in Some (Serial_println ''----------------------------------------''
                 (Serial_println
                   ''Serial Commands: c = calibrate, r = measure, d = plot factor, x = erase factor''
                   st3))))"

text \<open>The command part of \<open>loop\<close> (lines 59 to 76).\<close>

definition dispatch :: "('f, 'd) arith \<Rightarrow> 'f state \<Rightarrow> 'f state option" where
  "dispatch A st =
     (if Serial_available st then
        (let (cmd, st1) = Serial_read st
         in if cmd = CHR ''c'' then interactiveCalibration A st1
            else if cmd = CHR ''r'' then
              (let (i, st2) = measure_irms A st1
               in Some (Serial_println '' A''
                    (Serial_print_float i 6 (Serial_print ''I_rms (forced) = '' st2))))
            else if cmd = CHR ''d'' then
              Some (Serial_println_float (calibrationFactor st1) 6
                (Serial_print ''Calibration factor = '' st1))
            else if cmd = CHR ''x'' then
              Some (Serial_println ''Calibration erased.'' (prefs_remove PREF_KEY st1))
            else Some st1)
      else Some st)"

text \<open>
  The periodic part of \<open>loop\<close> (lines 79 to 92). The static \<open>t0\<close> takes the value of
  \<open>millis()\<close> when control first reaches its declaration; the difference and the
  comparison are those of \<open>uint32_t\<close>.
\<close>

definition periodic :: "('f, 'd) arith \<Rightarrow> 'f state \<Rightarrow> 'f state" where
  "periodic A st =
     (let t = (case t0 st of None \<Rightarrow> millis st | Some t \<Rightarrow> t);
          st1 = st\<lparr>t0 := Some t\<rparr>
      in if 2000 \<le> millis st1 - t then
           (let (i, st2) = measure_irms A st1;
                st3 =
                  (if flt A i (IGNORE_THRESHOLD_A A) then
                     Serial_println '' A (noise)''
                       (Serial_print_float (IGNORE_THRESHOLD_A A) 3 (Serial_print ''I_rms <'' st2))
                   else
                     Serial_println '' A'' (Serial_print_float i 4 (Serial_print ''I_rms: '' st2)))
            in st3\<lparr>t0 := Some (millis st3)\<rparr>)
         else st1)"

definition loop :: "('f, 'd) arith \<Rightarrow> 'f state \<Rightarrow> 'f state option" where
  "loop A st = do { st1 \<leftarrow> dispatch A st; Some (periodic A st1) }"

subsection \<open>The RMS voltage in the words of the specification\<close>

text \<open>
  The voltage of a raw reading is the reading times the scale 2.048/32768 of the gain,
  as a float. The sum of the squares is taken in doubles, from the first reading on;
  the RMS voltage is the square root of the sum divided by the number of readings.
\<close>

definition volts :: "('f, 'd) arith \<Rightarrow> 16 word \<Rightarrow> 'f" where
  "volts A raw = fmul A (i2f A (sint raw)) (fdiv A (flit A 2.048) (flit A 32768))"

definition add_square :: "('f, 'd) arith \<Rightarrow> 'd \<Rightarrow> 16 word \<Rightarrow> 'd" where
  "add_square A sumsq raw = dadd A sumsq (dmul A (f2d A (volts A raw)) (f2d A (volts A raw)))"

definition sum_squares :: "('f, 'd) arith \<Rightarrow> 16 word list \<Rightarrow> 'd" where
  "sum_squares A raws = foldl (add_square A) (dlit A 0) raws"

definition rms_spec :: "('f, 'd) arith \<Rightarrow> 16 word list \<Rightarrow> 'f" where
  "rms_spec A raws = fsqrt A (d2f A (ddiv A (sum_squares A raws) (i2d A (int (length raws)))))"

text \<open>The next \<open>n\<close> readings the converter delivers in a state.\<close>

definition readings :: "'f state \<Rightarrow> nat \<Rightarrow> 16 word list" where
  "readings st n = map (adc st) [adc_pos st ..< adc_pos st + n]"

subsection \<open>Properties of an arithmetic\<close>

text \<open>
  \<open>x < y\<close> excludes \<open>y \<le> x\<close>: a law of the IEEE comparisons (both are false on a NaN)
  and of every linear order.
\<close>

definition ordered_arith :: "('f, 'd) arith \<Rightarrow> bool" where
  "ordered_arith A = (\<forall>x y. flt A x y \<longrightarrow> \<not> fle A y x)"

text \<open>
  The laws of sign that the RMS computation rests on, each a law of IEEE 754 arithmetic:
  the square of a sample's voltage is not negative, nor is zero, a sum of two values
  that are not negative, such a value divided by a positive count, such a double
  rounded to a float, and the square root of such a float.
\<close>

definition sign_laws :: "('f, 'd) arith \<Rightarrow> bool" where
  "sign_laws A =
     ((\<forall>raw. dle A (dlit A 0) (dmul A (f2d A (volts A raw)) (f2d A (volts A raw)))) \<and>
      dle A (dlit A 0) (dlit A 0) \<and>
      (\<forall>a b. dle A (dlit A 0) a \<and> dle A (dlit A 0) b \<longrightarrow> dle A (dlit A 0) (dadd A a b)) \<and>
      (\<forall>a n. dle A (dlit A 0) a \<and> 0 < n \<longrightarrow> dle A (dlit A 0) (ddiv A a (i2d A n))) \<and>
      (\<forall>a. dle A (dlit A 0) a \<longrightarrow> fle A (flit A 0) (d2f A a)) \<and>
      (\<forall>x. fle A (flit A 0) x \<longrightarrow> fle A (flit A 0) (fsqrt A x)))"

subsection \<open>The console output of an operation\<close>

text \<open>What an operation has written: the output of the state after it, past that before.\<close>

definition emitted :: "'f state \<Rightarrow> 'f state \<Rightarrow> 'f event list" where
  "emitted st st' = drop (length (out st)) (out st')"

text \<open>The floats in an output, each with the number of decimals it is printed with.\<close>

fun numeric_prints :: "'f event list \<Rightarrow> ('f \<times> nat) list" where
  "numeric_prints [] = []"
| "numeric_prints (PrintNum x d # es) = (x, d) # numeric_prints es"
| "numeric_prints (PrintlnNum x d # es) = (x, d) # numeric_prints es"
| "numeric_prints (e # es) = numeric_prints es"

text \<open>What lines 125 to 151 of \<open>interactiveCalibration\<close> write, for the voltage measured.\<close>

definition acquire_output :: "('f, 'd) arith \<Rightarrow> 'f \<Rightarrow> 'f event list" where
  "acquire_output A V =
     [Println ''=== Interactive calibration ==='',
      Println ''Place known load (resistive). Press ENTER to start measure.'',
      Println ''Measure in progress...'',
      Print ''Vrms mesure = '', PrintNum (fmul A V (flit A 1000)) 4, Println '' mV'',
      Println ''Put known current value in A :'']"

text \<open>
  What lines 158 to 177 write, for the new factor and the byte that answers the prompt.
\<close>

definition commit_output :: "'f \<Rightarrow> char \<Rightarrow> 'f event list" where
  "commit_output newFactor r =
     [Print ''New factor calculated = '', PrintlnNum newFactor 6, Println ''Save ? (y/n)'',
      Println (if r = CHR ''y'' \<or> r = CHR ''Y'' then ''Factor saved in NVS.''
               else ''Calibration unsaved.''),
      Println ''=== Calibration finished ==='']"

text \<open>The three reports of a current: lines 83 to 85, 87 to 89 and 64 to 66.\<close>

definition noise_report :: "('f, 'd) arith \<Rightarrow> 'f event list" where
  "noise_report A = [Print ''I_rms <'', PrintNum (IGNORE_THRESHOLD_A A) 3, Println '' A (noise)'']"

definition current_report :: "'f \<Rightarrow> 'f event list" where
  "current_report i = [Print ''I_rms: '', PrintNum i 4, Println '' A'']"

definition forced_report :: "'f \<Rightarrow> 'f event list" where
  "forced_report i = [Print ''I_rms (forced) = '', PrintNum i 6, Println '' A'']"

subsection \<open>An exact arithmetic\<close>

text \<open>
  The arithmetic of the real numbers, with no rounding, to run the model on concrete
  inputs. Its \<open>toFloat\<close> reads what \<open>String::toFloat\<close> reads of the decimal notation:
  blanks, a sign, digits, a point and digits; a text with no digit where the number
  starts is 0.
\<close>

definition is_digit :: "char \<Rightarrow> bool" where
  "is_digit c = (48 \<le> (of_char c :: nat) \<and> (of_char c :: nat) \<le> 57)"

definition digit_value :: "char \<Rightarrow> real" where
  "digit_value c = real ((of_char c :: nat) - 48)"

fun int_part :: "real \<Rightarrow> string \<Rightarrow> real \<times> string" where
  "int_part acc [] = (acc, [])"
| "int_part acc (c # cs) =
     (if is_digit c then int_part (10 * acc + digit_value c) cs else (acc, c # cs))"

fun frac_part :: "real \<Rightarrow> real \<Rightarrow> string \<Rightarrow> real" where
  "frac_part scale acc [] = acc"
| "frac_part scale acc (c # cs) =
     (if is_digit c then frac_part (scale / 10) (acc + scale * digit_value c) cs else acc)"

definition unsigned_decimal :: "string \<Rightarrow> real" where
  "unsigned_decimal s =
     (let (n, rest) = int_part 0 s
      in case rest of
           [] \<Rightarrow> n
         | c # cs \<Rightarrow> if c = CHR ''.'' then frac_part (1 / 10) n cs else n)"

definition decimal :: "string \<Rightarrow> real" where
  "decimal s =
     (case dropWhile (\<lambda>c. c = CHR '' '') s of
        [] \<Rightarrow> 0
      | c # cs \<Rightarrow>
          if c = CHR ''-'' then - unsigned_decimal cs
          else if c = CHR ''+'' then unsigned_decimal cs
          else unsigned_decimal (c # cs))"

definition exact_arith :: "(real, real) arith" where
  "exact_arith =
     \<lparr>flit = (\<lambda>x. x), dlit = (\<lambda>x. x), i2f = real_of_int, i2d = real_of_int,
      f2d = (\<lambda>x. x), d2f = (\<lambda>x. x), fmul = (*), fdiv = (/), fsqrt = sqrt,
      fle = (\<le>), flt = (<), dadd = (+), dmul = (*), ddiv = (/), dle = (\<le>),
      toFloat = decimal\<rparr>"

subsection \<open>A test bench\<close>

text \<open>
  A sketch that has run \<open>setup\<close>, with the default factor, on a converter that always
  reads 16000 counts (1 V at the scale of the gain), and a console input.
\<close>

definition bench :: "(string \<times> string \<rightharpoonup> real) \<Rightarrow> (nat \<times> char) list \<Rightarrow> real state" where
  "bench store input =
     \<lparr>calibrationFactor = 5, nvs = store, prefs_ns = Some ''sct_conf'', ads_present = True,
      adc = (\<lambda>k. 16000), adc_pos = 0, now = 0, inbox = input, out = [], t0 = None\<rparr>"

text \<open>
  An operator at the calibration: ENTER at once, the line with the known current once
  the measurement is over (it takes 1.84 s), and the answer to the prompt 50 ms later.
\<close>

definition operator_input :: "string \<Rightarrow> char \<Rightarrow> (nat \<times> char) list" where
  "operator_input line answer =
     (0, CHR 0x0A) # map (Pair 1850000) line @ [(1850000, CHR 0x0A), (1900000, answer)]"

text \<open>The bench on a converter that reads 16000 and -16000 counts in turn.\<close>

definition alternating :: "real state" where
  "alternating = (bench Map.empty [])\<lparr>adc := (\<lambda>k. if even k then 16000 else - 16000)\<rparr>"

text \<open>
  The bench with a given factor, two seconds after \<open>loop\<close> first ran: the periodic
  measurement is due.
\<close>

definition bench_at :: "real \<Rightarrow> (nat \<times> char) list \<Rightarrow> real state" where
  "bench_at factor input =
     (bench Map.empty input)\<lparr>calibrationFactor := factor, now := 2000000, t0 := Some 0\<rparr>"

text \<open>
  The bench with the factor 7 loaded from the store, and the erase command on the console.
\<close>

definition loaded_bench :: "real state" where
  "loaded_bench =
     (bench [(PREF_NAMESPACE, PREF_KEY) \<mapsto> 7] [(0, CHR ''x'')])\<lparr>calibrationFactor := 7\<rparr>"

section \<open>Properties\<close>

subsection \<open>The loops\<close>

lemmas console_defs =
  Serial_print_def Serial_println_def Serial_print_float_def Serial_println_float_def

lemma vrms_loop_eq:
  "vrms_loop A samples i sumsq st =
     (foldl (add_square A) sumsq (readings st (nat (samples - i))),
      st\<lparr>adc_pos := adc_pos st + nat (samples - i),
         now := now st + nat (samples - i) * SAMPLE_DELAY_US\<rparr>)"
proof (induction A samples i sumsq st rule: vrms_loop.induct)
  case (1 A samples i sumsq st)
  show ?case
  proof (cases "i < samples")
    case False
    then show ?thesis
      by (simp add: vrms_loop.simps [of A samples i] readings_def)
  next
    case True
    then have n: "nat (samples - i) = Suc (nat (samples - (i + 1)))"
      by simp
    define st1 where "st1 = st\<lparr>adc_pos := Suc (adc_pos st)\<rparr>"
    define v where "v = fmul A (i2f A (sint (adc st (adc_pos st)))) (ADS_LSB A)"
    define s' where "s' = dadd A sumsq (dmul A (f2d A v) (f2d A v))"
    define st2 where "st2 = delayMicroseconds SAMPLE_DELAY_US st1"
    have rd: "readADC_Differential_0_1 st = (adc st (adc_pos st), st1)"
      by (simp add: readADC_Differential_0_1_def st1_def)
    have ih: "vrms_loop A samples (i + 1) s' st2 =
       (foldl (add_square A) s' (readings st2 (nat (samples - (i + 1)))),
        st2\<lparr>adc_pos := adc_pos st2 + nat (samples - (i + 1)),
           now := now st2 + nat (samples - (i + 1)) * SAMPLE_DELAY_US\<rparr>)"
      by (rule "1.IH" [OF True rd [symmetric] refl v_def s'_def st2_def])
    have unf: "vrms_loop A samples i sumsq st = vrms_loop A samples (i + 1) s' st2"
      using True by (subst vrms_loop.simps) (simp add: rd v_def s'_def st2_def Let_def)
    have hd: "readings st (Suc k) = adc st (adc_pos st) # readings st2 k" for k
      by (simp add: readings_def upt_conv_Cons st2_def st1_def delayMicroseconds_def del: upt_Suc)
    have sq: "add_square A sumsq (adc st (adc_pos st)) = s'"
      by (simp add: add_square_def volts_def s'_def v_def ADS_LSB_def)
    show ?thesis
      by (simp add: unf ih n hd sq) (simp add: st2_def st1_def delayMicroseconds_def)
  qed
qed

lemma measure_vrms_eq:
  "measure_vrms A samples st =
     (fsqrt A (d2f A (ddiv A (sum_squares A (readings st (nat samples))) (i2d A samples))),
      st\<lparr>adc_pos := adc_pos st + nat samples,
         now := now st + nat samples * SAMPLE_DELAY_US\<rparr>)"
  by (simp add: measure_vrms_def vrms_loop_eq sum_squares_def)

lemma wait_available_Some:
  "inbox st \<noteq> [] \<Longrightarrow>
     \<exists>n. wait_available st = Some (st\<lparr>now := n\<rparr>) \<and> Serial_available (st\<lparr>now := n\<rparr>)"
proof (induction st rule: wait_available.induct)
  case (1 st)
  show ?case
  proof (cases "Serial_available st")
    case True
    with "1.prems" have "wait_available st = Some (st\<lparr>now := now st\<rparr>)"
      "Serial_available (st\<lparr>now := now st\<rparr>)"
      by (simp_all add: wait_available.simps [of st])
    then show ?thesis by blast
  next
    case False
    have "inbox (delay 10 st) \<noteq> []"
      using "1.prems" by (simp add: delay_def)
    from "1.IH" [OF "1.prems" False this]
    obtain n where n: "wait_available (delay 10 st) = Some ((delay 10 st)\<lparr>now := n\<rparr>)"
      "Serial_available ((delay 10 st)\<lparr>now := n\<rparr>)"
      by blast
    have "wait_available st = Some (st\<lparr>now := n\<rparr>)"
      using "1.prems" False n(1) by (simp add: wait_available.simps [of st] delay_def)
    moreover have "Serial_available (st\<lparr>now := n\<rparr>)"
      using n(2) by (simp add: delay_def)
    ultimately show ?thesis by blast
  qed
qed

lemma wait_available_None: "inbox st = [] \<Longrightarrow> wait_available st = None"
  by (simp add: wait_available.simps [of st])

lemma Serial_read_shape: "\<exists>ib. snd (Serial_read st) = st\<lparr>inbox := ib\<rparr>"
proof (cases "Serial_available st")
  case True
  then have "snd (Serial_read st) = st\<lparr>inbox := tl (inbox st)\<rparr>"
    by (auto simp: Serial_read_def Serial_available_def split: list.splits)
  then show ?thesis by blast
next
  case False
  then have "snd (Serial_read st) = st\<lparr>inbox := inbox st\<rparr>"
    by (auto simp: Serial_read_def Serial_available_def split: list.splits)
  then show ?thesis by blast
qed

lemma clear_buffer_shape: "\<exists>ib. clear_buffer st = st\<lparr>inbox := ib\<rparr>"
proof (induction st rule: clear_buffer.induct)
  case (1 st)
  show ?case
  proof (cases "Serial_available st")
    case False
    then have "clear_buffer st = st\<lparr>inbox := inbox st\<rparr>"
      by (simp add: clear_buffer.simps [of st])
    then show ?thesis by blast
  next
    case True
    have eq: "clear_buffer st = clear_buffer (snd (Serial_read st))"
      using True by (simp add: clear_buffer.simps [of st])
    obtain ib where rd: "snd (Serial_read st) = st\<lparr>inbox := ib\<rparr>"
      using Serial_read_shape by blast
    obtain ib' where "clear_buffer (snd (Serial_read st)) = (snd (Serial_read st))\<lparr>inbox := ib'\<rparr>"
      using "1.IH" [OF True] by blast
    then have "clear_buffer st = st\<lparr>inbox := ib'\<rparr>"
      by (simp add: eq rd)
    then show ?thesis by blast
  qed
qed

lemma read_line_shape:
  "read_line s st = Some (s', st') \<Longrightarrow> \<exists>n ib. st' = st\<lparr>now := n, inbox := ib\<rparr>"
proof (induction s st rule: read_line.induct)
  case (1 s st)
  note unf = read_line.simps [of s st]
  show ?case
  proof (cases "inbox st = []")
    case True
    with "1.prems" show ?thesis
      by (simp add: unf)
  next
    case ne: False
    show ?thesis
    proof (cases "Serial_available st")
      case False
      with ne "1.prems" have "read_line s (delay 10 st) = Some (s', st')"
        by (simp add: unf)
      from "1.IH"(3) [OF ne False this] obtain n ib
        where "st' = (delay 10 st)\<lparr>now := n, inbox := ib\<rparr>" by blast
      then have "st' = st\<lparr>now := n, inbox := ib\<rparr>"
        by (simp add: delay_def)
      then show ?thesis by blast
    next
      case True
      obtain c st1 where rd: "Serial_read st = (c, st1)"
        by (cases "Serial_read st")
      obtain ib1 where st1: "st1 = st\<lparr>inbox := ib1\<rparr>"
        using Serial_read_shape [of st] rd by auto
      consider "c = CHR 0x0D" | "c \<noteq> CHR 0x0D" "c = CHR 0x0A" | "c \<noteq> CHR 0x0D" "c \<noteq> CHR 0x0A"
        by blast
      then show ?thesis
      proof cases
        case 1
        with ne True rd "1.prems" have "read_line s st1 = Some (s', st')"
          by (simp add: unf)
        from "1.IH"(1) [OF ne True rd [symmetric] refl 1 this] obtain n ib
          where "st' = st1\<lparr>now := n, inbox := ib\<rparr>" by blast
        then have "st' = st\<lparr>now := n, inbox := ib\<rparr>"
          by (simp add: st1)
        then show ?thesis by blast
      next
        case 2
        with ne True rd "1.prems" have "st' = st1"
          by (simp add: unf)
        then have "st' = st\<lparr>now := now st, inbox := ib1\<rparr>"
          by (simp add: st1)
        then show ?thesis by blast
      next
        case 3
        with ne True rd "1.prems" have "read_line (s @ [c]) (delay 10 st1) = Some (s', st')"
          by (simp add: unf)
        from "1.IH"(2) [OF ne True rd [symmetric] refl 3 this] obtain n ib
          where "st' = (delay 10 st1)\<lparr>now := n, inbox := ib\<rparr>" by blast
        then have "st' = st\<lparr>now := n, inbox := ib\<rparr>"
          by (simp add: st1 delay_def)
        then show ?thesis by blast
      qed
    qed
  qed
qed

lemma calibration_acquire_shape:
  assumes "calibration_acquire A st = Some (V, s, st1)"
  shows "\<exists>n ib. st1 = st\<lparr>adc_pos := adc_pos st + 1600, now := n, inbox := ib,
                       out := out st @ acquire_output A V\<rparr>"
    and "V = rms_spec A (readings st 1600)"
proof -
  define sa where "sa = Serial_println ''Place known load (resistive). Press ENTER to start measure.''
           (Serial_println ''=== Interactive calibration ==='' st)"
  obtain sb where sb: "wait_available sa = Some sb"
    using assms by (auto simp: calibration_acquire_def sa_def split: Option.bind_splits)
  have "inbox sa \<noteq> []"
    using sb by (auto simp: wait_available.simps [of sa] split: if_splits)
  then obtain n1 where n1: "sb = sa\<lparr>now := n1\<rparr>"
    using wait_available_Some [of sa] sb by auto
  obtain ib1 where ib1: "clear_buffer sb = sb\<lparr>inbox := ib1\<rparr>"
    using clear_buffer_shape by blast
  have cb: "clear_buffer sb = st\<lparr>now := n1, inbox := ib1, out := out st @
      [Println ''=== Interactive calibration ==='',
       Println ''Place known load (resistive). Press ENTER to start measure.'']\<rparr>"
    by (simp add: ib1) (simp add: n1 sa_def console_defs)
  define sc where "sc = Serial_println ''Measure in progress...'' (clear_buffer sb)"
  define V' where "V' = fst (measure_vrms A SAMPLES sc)"
  define sd where "sd = snd (measure_vrms A SAMPLES sc)"
  define se where "se = Serial_println ''Put known current value in A :'' (Serial_println '' mV''
         (Serial_print_float (fmul A V' (flit A 1000)) 4
           (Serial_print ''Vrms mesure = '' sd)))"
  have rl: "read_line [] se = Some (s, st1)" and V: "V = V'"
    using assms sb
    by (auto simp: calibration_acquire_def sa_def [symmetric] sc_def [symmetric] V'_def sd_def se_def
        split: Option.bind_splits prod.splits)
  obtain n2 ib2 where st1: "st1 = se\<lparr>now := n2, inbox := ib2\<rparr>"
    using read_line_shape [OF rl] by blast
  have "st1 = st\<lparr>adc_pos := adc_pos st + 1600, now := n2, inbox := ib2,
                       out := out st @ acquire_output A V\<rparr>"
    by (simp add: st1 se_def sd_def V sc_def cb measure_vrms_eq SAMPLES_def
        console_defs acquire_output_def V'_def)
  then show "\<exists>n ib. st1 = st\<lparr>adc_pos := adc_pos st + 1600, now := n, inbox := ib,
                       out := out st @ acquire_output A V\<rparr>"
    by blast
  show "V = rms_spec A (readings st 1600)"
    by (simp add: V V'_def measure_vrms_eq SAMPLES_def rms_spec_def sc_def cb
        console_defs readings_def)
qed

subsection \<open>Running the loops on a concrete state\<close>

lemma wait_available_ready: "Serial_available st \<Longrightarrow> wait_available st = Some st"
  by (auto simp: wait_available.simps [of st] Serial_available_def)

lemma wait_available_wait:
  "inbox st \<noteq> [] \<Longrightarrow> \<not> Serial_available st \<Longrightarrow>
     wait_available st = wait_available (delay 10 st)"
  by (simp add: wait_available.simps [of st])

lemma clear_buffer_done: "\<not> Serial_available st \<Longrightarrow> clear_buffer st = st"
  by (simp add: clear_buffer.simps [of st])

lemma clear_buffer_step:
  "Serial_available st \<Longrightarrow> clear_buffer st = clear_buffer (snd (Serial_read st))"
  by (simp add: clear_buffer.simps [of st])

lemma read_line_wait:
  "inbox st \<noteq> [] \<Longrightarrow> \<not> Serial_available st \<Longrightarrow> read_line s st = read_line s (delay 10 st)"
  by (simp add: read_line.simps [of s st])

lemma read_line_byte:
  "Serial_available st \<Longrightarrow>
     read_line s st =
       (let (c, st1) = Serial_read st
        in if c = CHR 0x0D then read_line s st1
           else if c = CHR 0x0A then Some (s, st1)
           else read_line (s @ [c]) (delay 10 st1))"
  by (auto simp: read_line.simps [of s st] Serial_available_def)

lemmas run_loops =
  wait_available_ready wait_available_wait clear_buffer_done clear_buffer_step
  read_line_wait read_line_byte Serial_available_def Serial_read_def delay_def

lemma sum_squares_exact_constant:
  "foldl (add_square exact_arith) z (map (\<lambda>k. c) ks) =
     z + real (length ks) * (volts exact_arith c)\<^sup>2"
  by (induction ks arbitrary: z)
    (simp_all add: add_square_def exact_arith_def power2_eq_square algebra_simps)

lemma rms_exact_constant:
  assumes "0 < n" and "adc st = (\<lambda>k. c)"
  shows "rms_spec exact_arith (readings st n) = \<bar>volts exact_arith c\<bar>"
proof -
  have "sum_squares exact_arith (readings st n) = real n * (volts exact_arith c)\<^sup>2"
    by (simp add: sum_squares_def readings_def assms(2) sum_squares_exact_constant)
      (simp add: exact_arith_def)
  then show ?thesis
    using assms(1) by (simp add: rms_spec_def readings_def) (simp add: exact_arith_def)
qed

lemma volts_exact_16000: "volts exact_arith 16000 = 1"
  by (simp add: volts_def exact_arith_def)

lemma measure_vrms_bench:
  "adc st = (\<lambda>k. 16000) \<Longrightarrow>
     measure_vrms exact_arith 1600 st =
       (1, st\<lparr>adc_pos := adc_pos st + 1600, now := now st + 1840000\<rparr>)"
proof -
  assume a: "adc st = (\<lambda>k. 16000)"
  have "rms_spec exact_arith (readings st 1600) = 1"
    using rms_exact_constant [of 1600 st 16000] a by (simp add: volts_exact_16000)
  then show ?thesis
    by (simp add: measure_vrms_eq rms_spec_def readings_def SAMPLE_DELAY_US_def)
qed

lemma decimal_5: "decimal ''5'' = 5"
  by (simp add: decimal_def unsigned_decimal_def is_digit_def digit_value_def)

lemma decimal_abc: "decimal ''abc'' = 0"
  by (simp add: decimal_def unsigned_decimal_def is_digit_def digit_value_def)

lemma decimal_minus_1: "decimal ''-1'' = - 1"
  by (simp add: decimal_def unsigned_decimal_def is_digit_def digit_value_def)

lemma decimal_2_5: "decimal ''2.5'' = 5 / 2"
  by (simp add: decimal_def unsigned_decimal_def is_digit_def digit_value_def)

lemma acquire_bench:
  "calibration_acquire exact_arith (bench store (operator_input ''5'' r)) =
     Some (1, ''5'',
       (bench store [(1900000, r)])\<lparr>adc_pos := 1600, now := 1860000,
          out := acquire_output exact_arith 1\<rparr>)"
  apply (simp add: calibration_acquire_def bench_def operator_input_def console_defs SAMPLES_def)
  apply (simp add: run_loops measure_vrms_bench)
  apply (simp add: acquire_output_def)
  done

lemma acquire_bench_abc:
  "calibration_acquire exact_arith (bench store (operator_input ''abc'' r)) =
     Some (1, ''abc'',
       (bench store [(1900000, r)])\<lparr>adc_pos := 1600, now := 1880000,
          out := acquire_output exact_arith 1\<rparr>)"
  apply (simp add: calibration_acquire_def bench_def operator_input_def console_defs SAMPLES_def)
  apply (simp add: run_loops measure_vrms_bench)
  apply (simp add: acquire_output_def)
  done

lemma acquire_bench_minus_1:
  "calibration_acquire exact_arith (bench store (operator_input ''-1'' r)) =
     Some (1, ''-1'',
       (bench store [(1900000, r)])\<lparr>adc_pos := 1600, now := 1870000,
          out := acquire_output exact_arith 1\<rparr>)"
  apply (simp add: calibration_acquire_def bench_def operator_input_def console_defs SAMPLES_def)
  apply (simp add: run_loops measure_vrms_bench)
  apply (simp add: acquire_output_def)
  done

lemma acquire_bench_2_5:
  "calibration_acquire exact_arith (bench store (operator_input ''2.5'' r)) =
     Some (1, ''2.5'',
       (bench store [(1900000, r)])\<lparr>adc_pos := 1600, now := 1880000,
          out := acquire_output exact_arith 1\<rparr>)"
  apply (simp add: calibration_acquire_def bench_def operator_input_def console_defs SAMPLES_def)
  apply (simp add: run_loops measure_vrms_bench)
  apply (simp add: acquire_output_def)
  done

lemma ordered_arith_exact: "ordered_arith exact_arith"
  by (simp add: ordered_arith_def exact_arith_def)

subsection \<open>The sampler\<close>

lemma measure_irms_eq:
  "measure_irms A st =
     (fmul A (rms_spec A (readings st 1600)) (calibrationFactor st),
      st\<lparr>adc_pos := adc_pos st + 1600, now := now st + 1600 * SAMPLE_DELAY_US\<rparr>)"
  by (simp add: measure_irms_def measure_vrms_eq SAMPLES_def rms_spec_def readings_def)

lemma readings_alternating: "readings alternating 2 = [16000, - 16000]"
  by (simp add: readings_def alternating_def bench_def upt_conv_Cons)

text \<open>
  Claim C3. \<open>measure_irms\<close> returns the product of what \<open>measure_vrms(SAMPLES)\<close> returns
  and \<open>calibrationFactor\<close>, and nothing else happens: the state is that after the one
  measurement, which has read 1600 conversions.
\<close>

theorem measure_irms_is_product:
  "fst (measure_irms A st) = fmul A (fst (measure_vrms A SAMPLES st)) (calibrationFactor st) \<and>
   snd (measure_irms A st) = snd (measure_vrms A SAMPLES st) \<and>
   adc_pos (snd (measure_irms A st)) = adc_pos st + 1600"
  by (simp add: measure_irms_def measure_vrms_eq SAMPLES_def)

theorem measure_irms_is_product_witness:
  "fst (measure_vrms exact_arith SAMPLES (bench Map.empty [])) = 1 \<and>
   calibrationFactor (bench Map.empty []) = 5 \<and>
   fst (measure_irms exact_arith (bench Map.empty [])) = 5"
proof -
  have v: "fst (measure_vrms exact_arith SAMPLES (bench Map.empty [])) = 1"
    by (simp add: SAMPLES_def measure_vrms_bench bench_def)
  have c: "calibrationFactor (bench Map.empty []) = 5"
    by (simp add: bench_def)
  have "fst (measure_irms exact_arith (bench Map.empty [])) = fmul exact_arith 1 5"
    using measure_irms_is_product [of exact_arith "bench Map.empty []"] by (simp add: v c)
  then show ?thesis
    using v c by (simp add: exact_arith_def)
qed

text \<open>
  Claim C5. For a positive number of samples \<open>measure_vrms\<close> returns the RMS voltage of
  the specification over the readings it takes: each reading times 2.048/32768 as a
  float, the squares summed in doubles, the sum divided by the number of samples, the
  square root of the quotient as a float.
\<close>

theorem measure_vrms_is_rms:
  "0 < samples \<Longrightarrow>
     fst (measure_vrms A samples st) = rms_spec A (readings st (nat samples))"
  by (simp add: measure_vrms_eq rms_spec_def readings_def)

theorem measure_vrms_is_rms_witness:
  "readings alternating 2 = [16000, - 16000] \<and>
   fst (measure_vrms exact_arith 2 alternating) = 1"
proof -
  have "rms_spec exact_arith [16000, - 16000] = 1"
    by (simp add: rms_spec_def sum_squares_def add_square_def volts_def)
      (simp add: exact_arith_def)
  then show ?thesis
    using measure_vrms_is_rms [of 2 exact_arith alternating]
    by (simp add: readings_alternating)
qed

lemma sum_squares_nonneg:
  assumes "sign_laws A" and "dle A (dlit A 0) z"
  shows "dle A (dlit A 0) (foldl (add_square A) z raws)"
  using assms(2)
proof (induction raws arbitrary: z)
  case Nil
  then show ?case by simp
next
  case (Cons raw raws)
  have "dle A (dlit A 0) (dmul A (f2d A (volts A raw)) (f2d A (volts A raw)))"
    using assms(1) by (simp add: sign_laws_def)
  with Cons.prems have "dle A (dlit A 0) (add_square A z raw)"
    using assms(1) unfolding sign_laws_def add_square_def by blast
  then show ?case
    using Cons.IH by simp
qed

lemma sign_laws_exact: "sign_laws exact_arith"
  by (simp add: sign_laws_def exact_arith_def)

text \<open>
  Claim C9. For a positive number of samples the value \<open>measure_vrms\<close> returns is not
  negative, in every arithmetic with the laws of sign.
\<close>

theorem measure_vrms_nonneg:
  assumes "sign_laws A" and "0 < samples"
  shows "fle A (flit A 0) (fst (measure_vrms A samples st))"
proof -
  have "dle A (dlit A 0) (dlit A 0)"
    using assms(1) by (simp add: sign_laws_def)
  then have "dle A (dlit A 0) (sum_squares A (readings st (nat samples)))"
    unfolding sum_squares_def by (rule sum_squares_nonneg [OF assms(1)])
  then have "dle A (dlit A 0) (ddiv A (sum_squares A (readings st (nat samples))) (i2d A samples))"
    using assms unfolding sign_laws_def by blast
  then have "fle A (flit A 0)
      (d2f A (ddiv A (sum_squares A (readings st (nat samples))) (i2d A samples)))"
    using assms(1) unfolding sign_laws_def by blast
  then have "fle A (flit A 0)
      (fsqrt A (d2f A (ddiv A (sum_squares A (readings st (nat samples))) (i2d A samples))))"
    using assms(1) unfolding sign_laws_def by blast
  then show ?thesis
    by (simp add: measure_vrms_eq)
qed

theorem measure_vrms_nonneg_witness:
  "sign_laws exact_arith \<and> (0::int) < 2 \<and>
   fle exact_arith (flit exact_arith 0) (fst (measure_vrms exact_arith 2 alternating)) \<and>
   fst (measure_vrms exact_arith 2 alternating) = 1"
proof -
  have "fst (measure_vrms exact_arith 2 alternating) = 1"
    by (simp add: measure_vrms_eq readings_alternating sum_squares_def add_square_def volts_def)
      (simp add: exact_arith_def)
  then show ?thesis
    using measure_vrms_nonneg [OF sign_laws_exact, of 2 alternating] sign_laws_exact by simp
qed

subsection \<open>The calibration\<close>

lemma nvs_putFloat:
  "nvs (prefs_putFloat key v st) =
     (case prefs_ns st of None \<Rightarrow> nvs st | Some ns \<Rightarrow> (nvs st)((ns, key) \<mapsto> v))"
  by (simp add: prefs_putFloat_def split: option.splits)

lemma calibration_commit_invalid:
  "fle A (toFloat A s) (flit A 0) \<Longrightarrow>
     calibration_commit A V s st = Some (Serial_println ''Invalid value.'' st)"
  by (simp add: calibration_commit_def)

lemma calibration_commit_valid:
  assumes "\<not> fle A (toFloat A s) (flit A 0)" and "inbox st = (t, r) # rest"
  shows "\<exists>n. calibration_commit A V s st =
     Some (st\<lparr>calibrationFactor := fdiv A (toFloat A s) V,
             nvs := (if r = CHR ''y'' \<or> r = CHR ''Y''
                     then nvs (prefs_putFloat PREF_KEY (fdiv A (toFloat A s) V) st) else nvs st),
             now := n, inbox := rest,
             out := out st @ commit_output (fdiv A (toFloat A s) V) r\<rparr>)"
proof -
  define nf where "nf = fdiv A (toFloat A s) V"
  define sa where "sa = Serial_println ''Save ? (y/n)''
               (Serial_println_float nf 6 (Serial_print ''New factor calculated = '' st))"
  have "inbox sa \<noteq> []"
    using assms(2) by (simp add: sa_def console_defs)
  then obtain n where n: "wait_available sa = Some (sa\<lparr>now := n\<rparr>)"
    "Serial_available (sa\<lparr>now := n\<rparr>)"
    using wait_available_Some by blast
  have rd: "Serial_read (sa\<lparr>now := n\<rparr>) = (r, sa\<lparr>now := n, inbox := rest\<rparr>)"
    using n(2) assms(2) by (simp add: Serial_read_def Serial_available_def sa_def console_defs)
  have "calibration_commit A V s st =
     Some (st\<lparr>calibrationFactor := nf,
             nvs := (if r = CHR ''y'' \<or> r = CHR ''Y''
                     then nvs (prefs_putFloat PREF_KEY nf st) else nvs st),
             now := n, inbox := rest,
             out := out st @ commit_output nf r\<rparr>)"
    using assms(1)
    apply (simp add: calibration_commit_def nf_def [symmetric] sa_def [symmetric] n(1) rd Let_def)
    apply (simp add: sa_def console_defs commit_output_def prefs_putFloat_def split: option.splits)
    done
  then show ?thesis
    unfolding nf_def by blast
qed

text \<open>
  A calibration whose known current passes the check and whose prompt is answered by the
  byte \<open>r\<close> returns, in this state.
\<close>

lemma interactiveCalibration_valid:
  assumes "calibration_acquire A st = Some (V, s, st1)"
    and "\<not> fle A (toFloat A s) (flit A 0)"
    and "inbox st1 = (t, r) # rest"
  shows "\<exists>n. interactiveCalibration A st =
     Some (st\<lparr>calibrationFactor := fdiv A (toFloat A s) V,
             nvs := (if r = CHR ''y'' \<or> r = CHR ''Y''
                     then nvs (prefs_putFloat PREF_KEY (fdiv A (toFloat A s) V) st) else nvs st),
             adc_pos := adc_pos st + 1600, now := n, inbox := rest,
             out := out st @ acquire_output A V @ commit_output (fdiv A (toFloat A s) V) r\<rparr>)"
proof -
  define nf where "nf = fdiv A (toFloat A s) V"
  obtain n ib where st1: "st1 = st\<lparr>adc_pos := adc_pos st + 1600, now := n, inbox := ib,
                       out := out st @ acquire_output A V\<rparr>"
    using calibration_acquire_shape(1) [OF assms(1)] by blast
  obtain n' where cm: "calibration_commit A V s st1 =
     Some (st1\<lparr>calibrationFactor := nf,
             nvs := (if r = CHR ''y'' \<or> r = CHR ''Y''
                     then nvs (prefs_putFloat PREF_KEY nf st1) else nvs st1),
             now := n', inbox := rest,
             out := out st1 @ commit_output nf r\<rparr>)"
    using calibration_commit_valid [OF assms(2,3)] unfolding nf_def by blast
  have "interactiveCalibration A st = calibration_commit A V s st1"
    using assms(1) by (simp add: interactiveCalibration_def)
  also note cm
  also have "Some (st1\<lparr>calibrationFactor := nf,
             nvs := (if r = CHR ''y'' \<or> r = CHR ''Y''
                     then nvs (prefs_putFloat PREF_KEY nf st1) else nvs st1),
             now := n', inbox := rest,
             out := out st1 @ commit_output nf r\<rparr>) =
     Some (st\<lparr>calibrationFactor := nf,
             nvs := (if r = CHR ''y'' \<or> r = CHR ''Y''
                     then nvs (prefs_putFloat PREF_KEY nf st) else nvs st),
             adc_pos := adc_pos st + 1600, now := n', inbox := rest,
             out := out st @ acquire_output A V @ commit_output nf r\<rparr>)"
    by (cases "prefs_ns st") (simp_all add: st1 nvs_putFloat)
  finally show ?thesis
    unfolding nf_def by blast
qed

text \<open>
  Claim C1. A calibration that measures the RMS voltage \<open>V\<close> and reads a known current
  that parses to \<open>I\<close> with \<open>I > 0\<close> returns with the live \<open>calibrationFactor\<close> equal to
  \<open>I / V\<close>, whatever byte \<open>r\<close> answers the save prompt. The arithmetic is any in which
  \<open>0 < I\<close> excludes \<open>I \<le> 0\<close>, the comparison the sketch makes.
\<close>

theorem calibration_sets_live_factor:
  assumes "ordered_arith A"
    and "calibration_acquire A st = Some (V, s, st1)"
    and "toFloat A s = I" and "flt A (flit A 0) I"
    and "inbox st1 = (t, r) # rest"
  shows "\<exists>st'. interactiveCalibration A st = Some st' \<and> calibrationFactor st' = fdiv A I V"
proof -
  have guard: "\<not> fle A (toFloat A s) (flit A 0)"
    using assms(1,3,4) by (auto simp: ordered_arith_def)
  from interactiveCalibration_valid [OF assms(2) guard assms(5)] assms(3)
  show ?thesis by auto
qed

theorem calibration_sets_live_factor_witness:
  "flt exact_arith (flit exact_arith 0) (toFloat exact_arith ''5'') \<and>
   map_option calibrationFactor
     (interactiveCalibration exact_arith (bench Map.empty (operator_input ''5'' CHR ''y''))) =
     Some 5 \<and>
   map_option calibrationFactor
     (interactiveCalibration exact_arith (bench Map.empty (operator_input ''5'' CHR ''n''))) =
     Some 5"
proof -
  have tf: "toFloat exact_arith ''5'' = 5"
    by (simp add: exact_arith_def decimal_5)
  have pos: "flt exact_arith (flit exact_arith 0) 5"
    by (simp add: exact_arith_def)
  have ib: "inbox ((bench Map.empty [(1900000, r)])\<lparr>adc_pos := 1600, now := 1860000,
          out := acquire_output exact_arith 1\<rparr>) = (1900000, r) # []" for r
    by (simp add: bench_def)
  have "\<exists>st'. interactiveCalibration exact_arith (bench Map.empty (operator_input ''5'' r)) =
      Some st' \<and> calibrationFactor st' = 5" for r
    using calibration_sets_live_factor [OF ordered_arith_exact acquire_bench tf pos ib, of r]
    by (simp add: exact_arith_def)
  then show ?thesis
    using tf pos by auto
qed

text \<open>
  Claim C2. A calibration whose known current parses to a value that is not positive
  (\<open>iknown <= 0.0f\<close>) returns with \<open>calibrationFactor\<close> and the non-volatile store as
  they were; its last report is the invalid value.
\<close>

theorem invalid_current_aborts:
  assumes "calibration_acquire A st = Some (V, s, st1)"
    and "fle A (toFloat A s) (flit A 0)"
  shows "\<exists>st'. interactiveCalibration A st = Some st' \<and>
           calibrationFactor st' = calibrationFactor st \<and> nvs st' = nvs st \<and>
           prefs_ns st' = prefs_ns st \<and> last (out st') = Println ''Invalid value.''"
proof -
  obtain n ib where st1: "st1 = st\<lparr>adc_pos := adc_pos st + 1600, now := n, inbox := ib,
                       out := out st @ acquire_output A V\<rparr>"
    using calibration_acquire_shape(1) [OF assms(1)] by blast
  have "interactiveCalibration A st = Some (Serial_println ''Invalid value.'' st1)"
    using assms by (simp add: interactiveCalibration_def calibration_commit_invalid)
  then show ?thesis
    by (simp add: st1 console_defs)
qed

theorem invalid_current_aborts_witness:
  "fle exact_arith (toFloat exact_arith ''abc'') (flit exact_arith 0) \<and>
   fle exact_arith (toFloat exact_arith ''-1'') (flit exact_arith 0) \<and>
   map_option (\<lambda>st. (calibrationFactor st, nvs st (PREF_NAMESPACE, PREF_KEY)))
     (interactiveCalibration exact_arith
       (bench [(PREF_NAMESPACE, PREF_KEY) \<mapsto> 7] (operator_input ''abc'' CHR ''y''))) =
     Some (5, Some 7) \<and>
   map_option (\<lambda>st. (calibrationFactor st, nvs st (PREF_NAMESPACE, PREF_KEY)))
     (interactiveCalibration exact_arith
       (bench [(PREF_NAMESPACE, PREF_KEY) \<mapsto> 7] (operator_input ''-1'' CHR ''y''))) =
     Some (5, Some 7)"
proof -
  define store :: "string \<times> string \<rightharpoonup> real" where "store = [(PREF_NAMESPACE, PREF_KEY) \<mapsto> 7]"
  have abc: "fle exact_arith (toFloat exact_arith ''abc'') (flit exact_arith 0)"
    by (simp add: exact_arith_def decimal_abc)
  have neg: "fle exact_arith (toFloat exact_arith ''-1'') (flit exact_arith 0)"
    by (simp add: exact_arith_def decimal_minus_1)
  obtain st' where "interactiveCalibration exact_arith
        (bench store (operator_input ''abc'' CHR ''y'')) = Some st'"
      "calibrationFactor st' = calibrationFactor (bench store (operator_input ''abc'' CHR ''y''))"
      "nvs st' = nvs (bench store (operator_input ''abc'' CHR ''y''))"
    using invalid_current_aborts [OF acquire_bench_abc abc, of store "CHR ''y''"] by blast
  then have 1: "map_option (\<lambda>st. (calibrationFactor st, nvs st (PREF_NAMESPACE, PREF_KEY)))
     (interactiveCalibration exact_arith (bench store (operator_input ''abc'' CHR ''y''))) =
     Some (5, Some 7)"
    by (simp add: bench_def store_def)
  obtain st' where "interactiveCalibration exact_arith
        (bench store (operator_input ''-1'' CHR ''y'')) = Some st'"
      "calibrationFactor st' = calibrationFactor (bench store (operator_input ''-1'' CHR ''y''))"
      "nvs st' = nvs (bench store (operator_input ''-1'' CHR ''y''))"
    using invalid_current_aborts [OF acquire_bench_minus_1 neg, of store "CHR ''y''"] by blast
  then have 2: "map_option (\<lambda>st. (calibrationFactor st, nvs st (PREF_NAMESPACE, PREF_KEY)))
     (interactiveCalibration exact_arith (bench store (operator_input ''-1'' CHR ''y''))) =
     Some (5, Some 7)"
    by (simp add: bench_def store_def)
  show ?thesis
    using abc neg 1 2 unfolding store_def by blast
qed

text \<open>
  Claim C4. In a calibration that reaches the save prompt, the store is written, with
  the new factor under the key, if the byte read is \<open>y\<close> or \<open>Y\<close>, and is as it was on any
  other byte; the live factor is the new one in both cases.
\<close>

theorem save_iff_confirmed:
  assumes "calibration_acquire A st = Some (V, s, st1)"
    and "\<not> fle A (toFloat A s) (flit A 0)"
    and "inbox st1 = (t, r) # rest"
    and "prefs_ns st = Some PREF_NAMESPACE"
  shows "\<exists>st'. interactiveCalibration A st = Some st' \<and>
           calibrationFactor st' = fdiv A (toFloat A s) V \<and>
           nvs st' =
             (if r = CHR ''y'' \<or> r = CHR ''Y''
              then (nvs st)((PREF_NAMESPACE, PREF_KEY) \<mapsto> fdiv A (toFloat A s) V)
              else nvs st)"
  using interactiveCalibration_valid [OF assms(1,2,3)] assms(4)
  by (auto simp: prefs_putFloat_def)

theorem save_iff_confirmed_witness:
  "\<not> fle exact_arith (toFloat exact_arith ''5'') (flit exact_arith 0) \<and>
   map_option (\<lambda>st. (calibrationFactor st, nvs st (PREF_NAMESPACE, PREF_KEY)))
     (interactiveCalibration exact_arith
       (bench [(PREF_NAMESPACE, PREF_KEY) \<mapsto> 7] (operator_input ''5'' CHR ''Y''))) =
     Some (5, Some 5) \<and>
   map_option (\<lambda>st. (calibrationFactor st, nvs st (PREF_NAMESPACE, PREF_KEY)))
     (interactiveCalibration exact_arith
       (bench [(PREF_NAMESPACE, PREF_KEY) \<mapsto> 7] (operator_input ''5'' CHR ''n''))) =
     Some (5, Some 7)"
proof -
  define store :: "string \<times> string \<rightharpoonup> real" where "store = [(PREF_NAMESPACE, PREF_KEY) \<mapsto> 7]"
  have guard: "\<not> fle exact_arith (toFloat exact_arith ''5'') (flit exact_arith 0)"
    by (simp add: exact_arith_def decimal_5)
  have nf: "fdiv exact_arith (toFloat exact_arith ''5'') 1 = 5"
    by (simp add: exact_arith_def decimal_5)
  have ib: "inbox ((bench store [(1900000, r)])\<lparr>adc_pos := 1600, now := 1860000,
          out := acquire_output exact_arith 1\<rparr>) = (1900000, r) # []" for r
    by (simp add: bench_def)
  have ns: "prefs_ns (bench store input) = Some PREF_NAMESPACE" for input
    by (simp add: bench_def PREF_NAMESPACE_def)
  obtain st' where "interactiveCalibration exact_arith
        (bench store (operator_input ''5'' CHR ''Y'')) = Some st'"
      "calibrationFactor st' = 5"
      "nvs st' = (nvs (bench store (operator_input ''5'' CHR ''Y'')))((PREF_NAMESPACE, PREF_KEY) \<mapsto> 5)"
    using save_iff_confirmed [OF acquire_bench guard ib ns, of "CHR ''Y''"] by (auto simp: nf)
  then have 1: "map_option (\<lambda>st. (calibrationFactor st, nvs st (PREF_NAMESPACE, PREF_KEY)))
     (interactiveCalibration exact_arith (bench store (operator_input ''5'' CHR ''Y''))) =
     Some (5, Some 5)"
    by simp
  obtain st' where "interactiveCalibration exact_arith
        (bench store (operator_input ''5'' CHR ''n'')) = Some st'"
      "calibrationFactor st' = 5"
      "nvs st' = nvs (bench store (operator_input ''5'' CHR ''n''))"
    using save_iff_confirmed [OF acquire_bench guard ib ns, of "CHR ''n''"] by (auto simp: nf)
  then have 2: "map_option (\<lambda>st. (calibrationFactor st, nvs st (PREF_NAMESPACE, PREF_KEY)))
     (interactiveCalibration exact_arith (bench store (operator_input ''5'' CHR ''n''))) =
     Some (5, Some 7)"
    by (simp add: bench_def store_def)
  show ?thesis
    using guard 1 2 unfolding store_def by blast
qed

text \<open>
  Claim C10. A confirmed save leaves under the key the value of the live
  \<open>calibrationFactor\<close>.
\<close>

theorem confirmed_save_stores_live_factor:
  assumes "calibration_acquire A st = Some (V, s, st1)"
    and "\<not> fle A (toFloat A s) (flit A 0)"
    and "inbox st1 = (t, r) # rest"
    and "r = CHR ''y'' \<or> r = CHR ''Y''"
    and "prefs_ns st = Some PREF_NAMESPACE"
  shows "\<exists>st'. interactiveCalibration A st = Some st' \<and>
           nvs st' (PREF_NAMESPACE, PREF_KEY) = Some (calibrationFactor st')"
  using interactiveCalibration_valid [OF assms(1,2,3)] assms(4,5)
  by (auto simp: prefs_putFloat_def)

theorem confirmed_save_stores_live_factor_witness:
  "\<not> fle exact_arith (toFloat exact_arith ''2.5'') (flit exact_arith 0) \<and>
   (case interactiveCalibration exact_arith (bench Map.empty (operator_input ''2.5'' CHR ''y'')) of
      None \<Rightarrow> False
    | Some st' \<Rightarrow> nvs st' (PREF_NAMESPACE, PREF_KEY) = Some (calibrationFactor st'))"
proof -
  have guard: "\<not> fle exact_arith (toFloat exact_arith ''2.5'') (flit exact_arith 0)"
    by (simp add: exact_arith_def decimal_2_5)
  have ib: "inbox ((bench Map.empty [(1900000, CHR ''y'')])\<lparr>adc_pos := 1600, now := 1880000,
          out := acquire_output exact_arith 1\<rparr>) = (1900000, CHR ''y'') # []"
    by (simp add: bench_def)
  have ns: "prefs_ns (bench Map.empty input) = Some PREF_NAMESPACE" for input
    by (simp add: bench_def PREF_NAMESPACE_def)
  obtain st' where "interactiveCalibration exact_arith
        (bench Map.empty (operator_input ''2.5'' CHR ''y'')) = Some st'"
      "nvs st' (PREF_NAMESPACE, PREF_KEY) = Some (calibrationFactor st')"
    using confirmed_save_stores_live_factor [OF acquire_bench_2_5 guard ib _ ns] by blast
  with guard show ?thesis by simp
qed

subsection \<open>\<open>setup\<close> and \<open>loop\<close>\<close>

lemma Serial_read_available:
  "Serial_available st \<Longrightarrow> Serial_read st = (fst (Serial_read st), st\<lparr>inbox := tl (inbox st)\<rparr>)"
  by (auto simp: Serial_available_def Serial_read_def split: list.splits)

lemma periodic_due:
  assumes "t0 st = Some t" and "2000 \<le> millis st - t"
  shows "periodic A st =
     st\<lparr>adc_pos := adc_pos st + 1600, now := now st + 1600 * SAMPLE_DELAY_US,
        out := out st @
          (if flt A (fst (measure_irms A st)) (IGNORE_THRESHOLD_A A) then noise_report A
           else current_report (fst (measure_irms A st))),
        t0 := Some (word_of_nat ((now st + 1600 * SAMPLE_DELAY_US) div 1000))\<rparr>"
proof -
  have m: "millis (st\<lparr>t0 := Some t\<rparr>) = millis st"
    by (simp add: millis_def)
  have i: "measure_irms A (st\<lparr>t0 := Some t\<rparr>) =
      (fst (measure_irms A st),
       st\<lparr>adc_pos := adc_pos st + 1600, now := now st + 1600 * SAMPLE_DELAY_US, t0 := Some t\<rparr>)"
    by (simp add: measure_irms_eq readings_def)
  show ?thesis
    using assms
    by (simp add: periodic_def m i Let_def)
      (simp add: console_defs noise_report_def current_report_def millis_def)
qed

lemma periodic_frame:
  "calibrationFactor (periodic A st) = calibrationFactor st \<and> nvs (periodic A st) = nvs st \<and>
   prefs_ns (periodic A st) = prefs_ns st"
  by (simp add: periodic_def measure_irms_eq Let_def console_defs)

lemma dispatch_forced:
  assumes "Serial_available st" and "fst (Serial_read st) = CHR ''r''"
  shows "dispatch A st =
     Some (st\<lparr>inbox := tl (inbox st), adc_pos := adc_pos st + 1600,
             now := now st + 1600 * SAMPLE_DELAY_US,
             out := out st @ forced_report (fst (measure_irms A (snd (Serial_read st))))\<rparr>)"
proof -
  have rd: "Serial_read st = (CHR ''r'', st\<lparr>inbox := tl (inbox st)\<rparr>)"
    using Serial_read_available [OF assms(1)] assms(2) by simp
  show ?thesis
    using assms(1)
    by (simp add: dispatch_def rd measure_irms_eq console_defs forced_report_def readings_def)
qed

lemma dispatch_display:
  assumes "Serial_available st" and "fst (Serial_read st) = CHR ''d''"
  shows "dispatch A st =
     Some (st\<lparr>inbox := tl (inbox st),
             out := out st @ [Print ''Calibration factor = '',
                              PrintlnNum (calibrationFactor st) 6]\<rparr>)"
proof -
  have rd: "Serial_read st = (CHR ''d'', st\<lparr>inbox := tl (inbox st)\<rparr>)"
    using Serial_read_available [OF assms(1)] assms(2) by simp
  show ?thesis
    using assms(1) by (simp add: dispatch_def rd console_defs)
qed

lemma dispatch_erase:
  assumes "Serial_available st" and "fst (Serial_read st) = CHR ''x''"
  shows "dispatch A st =
     Some ((prefs_remove PREF_KEY (st\<lparr>inbox := tl (inbox st)\<rparr>))
             \<lparr>out := out st @ [Println ''Calibration erased.'']\<rparr>)"
proof -
  have rd: "Serial_read st = (CHR ''x'', st\<lparr>inbox := tl (inbox st)\<rparr>)"
    using Serial_read_available [OF assms(1)] assms(2) by simp
  show ?thesis
    using assms(1) by (simp add: dispatch_def rd console_defs prefs_remove_def split: option.splits)
qed

lemma setup_sketch_eq:
  assumes "ads_present st"
  shows "\<exists>st'. setup_sketch A st = Some st' \<and>
     calibrationFactor st' = prefs_getFloat PREF_KEY (calibrationFactor st) (prefs_begin PREF_NAMESPACE st) \<and>
     nvs st' = nvs st \<and> prefs_ns st' = prefs_ns (prefs_begin PREF_NAMESPACE st) \<and>
     numeric_prints (emitted st st') = [(calibrationFactor st', 6)]"
  using assms
  by (cases "prefs_ns st")
    (auto simp: setup_sketch_def Let_def console_defs delay_def prefs_begin_def prefs_isKey_def
      prefs_getFloat_def emitted_def split: option.splits)

lemma measure_irms_bench:
  "adc st = (\<lambda>k. 16000) \<Longrightarrow> fst (measure_irms exact_arith st) = calibrationFactor st"
  using measure_vrms_bench [of st]
  by (simp add: measure_irms_def SAMPLES_def) (simp add: exact_arith_def)

lemma interactiveCalibration_invalid:
  assumes "calibration_acquire A st = Some (V, s, st1)"
    and "fle A (toFloat A s) (flit A 0)"
  shows "\<exists>st'. interactiveCalibration A st = Some st' \<and>
           out st' = out st @ acquire_output A V @ [Println ''Invalid value.'']"
proof -
  obtain n ib where st1: "st1 = st\<lparr>adc_pos := adc_pos st + 1600, now := n, inbox := ib,
                       out := out st @ acquire_output A V\<rparr>"
    using calibration_acquire_shape(1) [OF assms(1)] by blast
  have "interactiveCalibration A st = Some (Serial_println ''Invalid value.'' st1)"
    using assms by (simp add: interactiveCalibration_def calibration_commit_invalid)
  then show ?thesis
    by (simp add: st1 console_defs)
qed

text \<open>
  Claim C6. When the periodic measurement is due, what it writes is the noise report if
  the measured current is below the threshold 0.001 A and the report of the current
  otherwise; it is the noise report exactly when the current is below the threshold. The
  command \<open>r\<close> writes the measured current whatever its value.
\<close>

theorem noise_relabel_periodic_only:
  "(t0 st = Some t \<and> 2000 \<le> millis st - t \<longrightarrow>
      emitted st (periodic A st) =
        (if flt A (fst (measure_irms A st)) (IGNORE_THRESHOLD_A A) then noise_report A
         else current_report (fst (measure_irms A st))) \<and>
      (emitted st (periodic A st) = noise_report A \<longleftrightarrow>
         flt A (fst (measure_irms A st)) (IGNORE_THRESHOLD_A A))) \<and>
   (Serial_available st \<and> fst (Serial_read st) = CHR ''r'' \<longrightarrow>
      (\<exists>st'. dispatch A st = Some st' \<and>
         emitted st st' = forced_report (fst (measure_irms A (snd (Serial_read st))))))"
proof (intro conjI impI)
  assume due: "t0 st = Some t \<and> 2000 \<le> millis st - t"
  then show e: "emitted st (periodic A st) =
        (if flt A (fst (measure_irms A st)) (IGNORE_THRESHOLD_A A) then noise_report A
         else current_report (fst (measure_irms A st)))"
    by (simp add: periodic_due emitted_def)
  show "emitted st (periodic A st) = noise_report A \<longleftrightarrow>
         flt A (fst (measure_irms A st)) (IGNORE_THRESHOLD_A A)"
    by (simp add: e noise_report_def current_report_def)
next
  assume "Serial_available st \<and> fst (Serial_read st) = CHR ''r''"
  then show "\<exists>st'. dispatch A st = Some st' \<and>
         emitted st st' = forced_report (fst (measure_irms A (snd (Serial_read st))))"
    by (simp add: dispatch_forced emitted_def)
qed

theorem noise_relabel_periodic_only_witness:
  "emitted (bench_at (1 / 2000) []) (periodic exact_arith (bench_at (1 / 2000) [])) =
     noise_report exact_arith \<and>
   emitted (bench_at 5 []) (periodic exact_arith (bench_at 5 [])) = current_report 5 \<and>
   map_option (emitted (bench_at (1 / 2000) [(0, CHR ''r'')]))
     (dispatch exact_arith (bench_at (1 / 2000) [(0, CHR ''r'')])) =
     Some (forced_report (1 / 2000))"
proof -
  have due: "t0 (bench_at f input) = Some 0 \<and> 2000 \<le> millis (bench_at f input) - 0" for f input
    by (simp add: bench_at_def bench_def millis_def)
  have i: "fst (measure_irms exact_arith (bench_at f input)) = f" for f input
    by (simp add: measure_irms_bench bench_at_def bench_def)
  have thr: "IGNORE_THRESHOLD_A exact_arith = 1 / 1000"
    by (simp add: IGNORE_THRESHOLD_A_def exact_arith_def)
  have 1: "emitted (bench_at (1 / 2000) []) (periodic exact_arith (bench_at (1 / 2000) [])) =
     noise_report exact_arith"
    using noise_relabel_periodic_only [of "bench_at (1 / 2000) []" 0 exact_arith] due
    by (simp add: i thr) (simp add: exact_arith_def)
  have 2: "emitted (bench_at 5 []) (periodic exact_arith (bench_at 5 [])) = current_report 5"
    using noise_relabel_periodic_only [of "bench_at 5 []" 0 exact_arith] due
    by (simp add: i thr) (simp add: exact_arith_def)
  have av: "Serial_available (bench_at f [(0, CHR ''r'')])"
    "Serial_read (bench_at f [(0, CHR ''r'')]) = (CHR ''r'', bench_at f [])" for f
    by (simp_all add: Serial_available_def Serial_read_def bench_at_def bench_def)
  have 3: "map_option (emitted (bench_at (1 / 2000) [(0, CHR ''r'')]))
     (dispatch exact_arith (bench_at (1 / 2000) [(0, CHR ''r'')])) =
     Some (forced_report (1 / 2000))"
    using noise_relabel_periodic_only [of "bench_at (1 / 2000) [(0, CHR ''r'')]" 0 exact_arith] av
    by (auto simp: i)
  show ?thesis
    using 1 2 3 by blast
qed

text \<open>
  Claim C7. \<open>setup\<close> after power-on, with the converter present, sets
  \<open>calibrationFactor\<close> to the value under \<open>sct_factor\<close> in \<open>sct_conf\<close> if there is
  one, and leaves the default 5.0 otherwise.
  The command \<open>x\<close> removes the key and leaves \<open>calibrationFactor\<close> as it is; \<open>setup\<close>
  after the next power-on finds the default.
\<close>

theorem factor_loaded_at_startup:
  "(\<exists>st'. setup_sketch A (power_on A store True conv input) = Some st' \<and>
      calibrationFactor st' =
        (case store (PREF_NAMESPACE, PREF_KEY) of None \<Rightarrow> flit A 5 | Some v \<Rightarrow> v)) \<and>
   (prefs_ns st = Some PREF_NAMESPACE \<and> Serial_available st \<and>
    fst (Serial_read st) = CHR ''x'' \<longrightarrow>
      (\<exists>st'. loop A st = Some st' \<and> calibrationFactor st' = calibrationFactor st \<and>
         nvs st' = (nvs st)((PREF_NAMESPACE, PREF_KEY) := None) \<and>
         (\<exists>st''. setup_sketch A (power_on A (nvs st') True conv input) = Some st'' \<and>
            calibrationFactor st'' = flit A 5)))"
proof -
  have boot: "\<exists>st'. setup_sketch A (power_on A store' True conv input) = Some st' \<and>
      calibrationFactor st' =
        (case store' (PREF_NAMESPACE, PREF_KEY) of None \<Rightarrow> flit A 5 | Some v \<Rightarrow> v)" for store'
    using setup_sketch_eq [of "power_on A store' True conv input" A]
    by (auto simp: power_on_def prefs_begin_def prefs_getFloat_def split: option.splits)
  have erase: "\<exists>st'. loop A st = Some st' \<and> calibrationFactor st' = calibrationFactor st \<and>
         nvs st' = (nvs st)((PREF_NAMESPACE, PREF_KEY) := None) \<and>
         (\<exists>st''. setup_sketch A (power_on A (nvs st') True conv input) = Some st'' \<and>
            calibrationFactor st'' = flit A 5)"
    if a: "prefs_ns st = Some PREF_NAMESPACE \<and> Serial_available st \<and>
      fst (Serial_read st) = CHR ''x''"
  proof -
    define st1 where "st1 = (prefs_remove PREF_KEY (st\<lparr>inbox := tl (inbox st)\<rparr>))
             \<lparr>out := out st @ [Println ''Calibration erased.'']\<rparr>"
    have d: "dispatch A st = Some st1"
      using a by (simp add: dispatch_erase st1_def)
    have st1: "calibrationFactor st1 = calibrationFactor st"
      "nvs st1 = (nvs st)((PREF_NAMESPACE, PREF_KEY) := None)"
      using a by (simp_all add: st1_def prefs_remove_def)
    have l: "loop A st = Some (periodic A st1)"
      by (simp add: loop_def d)
    have "\<exists>st''. setup_sketch A (power_on A (nvs (periodic A st1)) True conv input) = Some st'' \<and>
            calibrationFactor st'' = flit A 5"
      using boot [of "nvs (periodic A st1)"] by (simp add: periodic_frame st1)
    then show ?thesis
      by (simp add: l periodic_frame st1)
  qed
  show ?thesis
    using boot [of store] erase by blast
qed

theorem factor_loaded_at_startup_witness:
  "map_option calibrationFactor
     (setup_sketch exact_arith
       (power_on exact_arith [(PREF_NAMESPACE, PREF_KEY) \<mapsto> 7] True (\<lambda>k. 0) [])) = Some 7 \<and>
   map_option calibrationFactor
     (setup_sketch exact_arith (power_on exact_arith Map.empty True (\<lambda>k. 0) [])) = Some 5 \<and>
   (case loop exact_arith loaded_bench of
      None \<Rightarrow> False
    | Some st' \<Rightarrow>
        calibrationFactor st' = 7 \<and> nvs st' (PREF_NAMESPACE, PREF_KEY) = None \<and>
        map_option calibrationFactor
          (setup_sketch exact_arith (power_on exact_arith (nvs st') True (\<lambda>k. 0) [])) = Some 5)"
proof -
  have five: "flit exact_arith 5 = 5"
    by (simp add: exact_arith_def)
  have pre: "prefs_ns loaded_bench = Some PREF_NAMESPACE \<and> Serial_available loaded_bench \<and>
      fst (Serial_read loaded_bench) = CHR ''x''"
    by (simp add: loaded_bench_def bench_def PREF_NAMESPACE_def Serial_available_def
        Serial_read_def)
  have 1: "map_option calibrationFactor
     (setup_sketch exact_arith
       (power_on exact_arith [(PREF_NAMESPACE, PREF_KEY) \<mapsto> 7] True (\<lambda>k. 0) [])) = Some 7"
    using factor_loaded_at_startup
      [of exact_arith "[(PREF_NAMESPACE, PREF_KEY) \<mapsto> 7]" "\<lambda>k. 0" "[]" loaded_bench]
    by auto
  have 2: "map_option calibrationFactor
     (setup_sketch exact_arith (power_on exact_arith Map.empty True (\<lambda>k. 0) [])) = Some 5"
    using factor_loaded_at_startup [of exact_arith Map.empty "\<lambda>k. 0" "[]" loaded_bench]
    by (auto simp: five)
  obtain st' st'' where "loop exact_arith loaded_bench = Some st'"
      "calibrationFactor st' = calibrationFactor loaded_bench"
      "nvs st' = (nvs loaded_bench)((PREF_NAMESPACE, PREF_KEY) := None)"
      "setup_sketch exact_arith (power_on exact_arith (nvs st') True (\<lambda>k. 0) []) = Some st''"
      "calibrationFactor st'' = flit exact_arith 5"
    using factor_loaded_at_startup [of exact_arith Map.empty "\<lambda>k. 0" "[]" loaded_bench] pre
    by blast
  then have 3: "case loop exact_arith loaded_bench of
      None \<Rightarrow> False
    | Some st' \<Rightarrow>
        calibrationFactor st' = 7 \<and> nvs st' (PREF_NAMESPACE, PREF_KEY) = None \<and>
        map_option calibrationFactor
          (setup_sketch exact_arith (power_on exact_arith (nvs st') True (\<lambda>k. 0) [])) = Some 5"
    by (simp add: five) (simp add: loaded_bench_def)
  show ?thesis
    using 1 2 3 by blast
qed

text \<open>
  The command \<open>r\<close> on the bench prints the current 5 A with 6 decimals, not with 4.
\<close>

theorem forced_reading_decimals_counterexample:
  "map_option (\<lambda>st'. numeric_prints (out st')) (dispatch exact_arith (bench Map.empty [(0, CHR ''r'')])) =
     Some [(5, 6)] \<and>
   map_option (\<lambda>st'. numeric_prints (out st')) (dispatch exact_arith (bench Map.empty [(0, CHR ''r'')])) \<noteq>
     Some [(5, 4)]"
proof -
  have av: "Serial_available (bench Map.empty [(0, CHR ''r'')])"
    "Serial_read (bench Map.empty [(0, CHR ''r'')]) = (CHR ''r'', bench Map.empty [])"
    by (simp_all add: Serial_available_def Serial_read_def bench_def)
  have i: "fst (measure_irms exact_arith (bench Map.empty [])) = 5"
    by (simp add: measure_irms_bench bench_def)
  have "map_option (\<lambda>st'. numeric_prints (out st'))
      (dispatch exact_arith (bench Map.empty [(0, CHR ''r'')])) = Some [(5, 6)]"
    by (simp add: dispatch_forced av i forced_report_def) (simp add: bench_def)
  then show ?thesis by auto
qed

text \<open>
  Claim C8, amended. The decimals of every float the sketch prints: the current of the
  command \<open>r\<close> with 6; the periodic report with 3 for the threshold and 4 for the
  current; the factor of the command \<open>d\<close> and of \<open>setup\<close> with 6; in a calibration
  the measured voltage (in millivolts) with 4 and the new factor with 6.
\<close>

theorem print_decimals:
  "(Serial_available st \<and> fst (Serial_read st) = CHR ''r'' \<longrightarrow>
      (\<exists>st'. dispatch A st = Some st' \<and>
         numeric_prints (emitted st st') = [(fst (measure_irms A (snd (Serial_read st))), 6)])) \<and>
   (t0 st = Some t \<and> 2000 \<le> millis st - t \<longrightarrow>
      numeric_prints (emitted st (periodic A st)) =
        (if flt A (fst (measure_irms A st)) (IGNORE_THRESHOLD_A A)
         then [(IGNORE_THRESHOLD_A A, 3)] else [(fst (measure_irms A st), 4)])) \<and>
   (Serial_available st \<and> fst (Serial_read st) = CHR ''d'' \<longrightarrow>
      (\<exists>st'. dispatch A st = Some st' \<and>
         numeric_prints (emitted st st') = [(calibrationFactor st, 6)])) \<and>
   (ads_present st \<longrightarrow>
      (\<exists>st'. setup_sketch A st = Some st' \<and>
         numeric_prints (emitted st st') = [(calibrationFactor st', 6)])) \<and>
   (calibration_acquire A st = Some (V, s, st1) \<and> fle A (toFloat A s) (flit A 0) \<longrightarrow>
      (\<exists>st'. interactiveCalibration A st = Some st' \<and>
         numeric_prints (emitted st st') = [(fmul A V (flit A 1000), 4)])) \<and>
   (calibration_acquire A st = Some (V, s, st1) \<and> \<not> fle A (toFloat A s) (flit A 0) \<and>
    inbox st1 = (tr, r) # rest \<longrightarrow>
      (\<exists>st'. interactiveCalibration A st = Some st' \<and>
         numeric_prints (emitted st st') =
           [(fmul A V (flit A 1000), 4), (fdiv A (toFloat A s) V, 6)]))"
proof (intro conjI impI)
  assume "Serial_available st \<and> fst (Serial_read st) = CHR ''r''"
  then show "\<exists>st'. dispatch A st = Some st' \<and>
         numeric_prints (emitted st st') = [(fst (measure_irms A (snd (Serial_read st))), 6)]"
    by (simp add: dispatch_forced emitted_def forced_report_def)
next
  assume "t0 st = Some t \<and> 2000 \<le> millis st - t"
  then show "numeric_prints (emitted st (periodic A st)) =
        (if flt A (fst (measure_irms A st)) (IGNORE_THRESHOLD_A A)
         then [(IGNORE_THRESHOLD_A A, 3)] else [(fst (measure_irms A st), 4)])"
    by (simp add: periodic_due emitted_def noise_report_def current_report_def)
next
  assume "Serial_available st \<and> fst (Serial_read st) = CHR ''d''"
  then show "\<exists>st'. dispatch A st = Some st' \<and>
         numeric_prints (emitted st st') = [(calibrationFactor st, 6)]"
    by (simp add: dispatch_display emitted_def)
next
  assume "ads_present st"
  then show "\<exists>st'. setup_sketch A st = Some st' \<and>
         numeric_prints (emitted st st') = [(calibrationFactor st', 6)]"
    using setup_sketch_eq [of st A] by blast
next
  assume a: "calibration_acquire A st = Some (V, s, st1) \<and> fle A (toFloat A s) (flit A 0)"
  then obtain st' where "interactiveCalibration A st = Some st'"
    "out st' = out st @ acquire_output A V @ [Println ''Invalid value.'']"
    using interactiveCalibration_invalid [of A st V s st1] by blast
  then show "\<exists>st'. interactiveCalibration A st = Some st' \<and>
         numeric_prints (emitted st st') = [(fmul A V (flit A 1000), 4)]"
    by (simp add: emitted_def acquire_output_def)
next
  assume a: "calibration_acquire A st = Some (V, s, st1) \<and> \<not> fle A (toFloat A s) (flit A 0) \<and>
    inbox st1 = (tr, r) # rest"
  then obtain n where "interactiveCalibration A st =
     Some (st\<lparr>calibrationFactor := fdiv A (toFloat A s) V,
             nvs := (if r = CHR ''y'' \<or> r = CHR ''Y''
                     then nvs (prefs_putFloat PREF_KEY (fdiv A (toFloat A s) V) st) else nvs st),
             adc_pos := adc_pos st + 1600, now := n, inbox := rest,
             out := out st @ acquire_output A V @ commit_output (fdiv A (toFloat A s) V) r\<rparr>)"
    using interactiveCalibration_valid [of A st V s st1 tr r rest] by blast
  then show "\<exists>st'. interactiveCalibration A st = Some st' \<and>
         numeric_prints (emitted st st') =
           [(fmul A V (flit A 1000), 4), (fdiv A (toFloat A s) V, 6)]"
    by (simp add: emitted_def acquire_output_def commit_output_def)
qed

theorem print_decimals_witness:
  "map_option (\<lambda>st'. numeric_prints (emitted (bench Map.empty [(0, CHR ''r'')]) st'))
     (dispatch exact_arith (bench Map.empty [(0, CHR ''r'')])) = Some [(5, 6)] \<and>
   numeric_prints (emitted (bench_at (1 / 2000) []) (periodic exact_arith (bench_at (1 / 2000) []))) =
     [(1 / 1000, 3)] \<and>
   numeric_prints (emitted (bench_at 5 []) (periodic exact_arith (bench_at 5 []))) = [(5, 4)] \<and>
   map_option (\<lambda>st'. numeric_prints (emitted (bench Map.empty [(0, CHR ''d'')]) st'))
     (dispatch exact_arith (bench Map.empty [(0, CHR ''d'')])) = Some [(5, 6)] \<and>
   map_option (\<lambda>st'. numeric_prints
        (emitted (power_on exact_arith [(PREF_NAMESPACE, PREF_KEY) \<mapsto> 7] True (\<lambda>k. 0) []) st'))
     (setup_sketch exact_arith
       (power_on exact_arith [(PREF_NAMESPACE, PREF_KEY) \<mapsto> 7] True (\<lambda>k. 0) [])) =
     Some [(7, 6)] \<and>
   map_option (\<lambda>st'. numeric_prints (emitted (bench Map.empty (operator_input ''abc'' CHR ''y'')) st'))
     (interactiveCalibration exact_arith (bench Map.empty (operator_input ''abc'' CHR ''y''))) =
     Some [(1000, 4)] \<and>
   map_option (\<lambda>st'. numeric_prints (emitted (bench Map.empty (operator_input ''2.5'' CHR ''y'')) st'))
     (interactiveCalibration exact_arith (bench Map.empty (operator_input ''2.5'' CHR ''y''))) =
     Some [(1000, 4), (5 / 2, 6)]"
proof -
  note pd = print_decimals [where A = exact_arith]
  have av: "Serial_available (bench Map.empty [(0, c)])"
    "Serial_read (bench Map.empty [(0, c)]) = (c, bench Map.empty [])" for c
    by (simp_all add: Serial_available_def Serial_read_def bench_def)
  have i: "fst (measure_irms exact_arith (bench Map.empty [])) = 5"
    by (simp add: measure_irms_bench bench_def)
  have 1: "map_option (\<lambda>st'. numeric_prints (emitted (bench Map.empty [(0, CHR ''r'')]) st'))
     (dispatch exact_arith (bench Map.empty [(0, CHR ''r'')])) = Some [(5, 6)]"
    using pd [where st = "bench Map.empty [(0, CHR ''r'')]"] av by (auto simp: i)
  have due: "t0 (bench_at f input) = Some 0 \<and> 2000 \<le> millis (bench_at f input) - 0" for f input
    by (simp add: bench_at_def bench_def millis_def)
  have j: "fst (measure_irms exact_arith (bench_at f input)) = f" for f input
    by (simp add: measure_irms_bench bench_at_def bench_def)
  have thr: "IGNORE_THRESHOLD_A exact_arith = 1 / 1000"
    by (simp add: IGNORE_THRESHOLD_A_def exact_arith_def)
  have 2: "numeric_prints (emitted (bench_at (1 / 2000) [])
      (periodic exact_arith (bench_at (1 / 2000) []))) = [(1 / 1000, 3)]"
    using pd [where st = "bench_at (1 / 2000) []" and t = 0] due
    by (simp add: j thr) (simp add: exact_arith_def)
  have 3: "numeric_prints (emitted (bench_at 5 []) (periodic exact_arith (bench_at 5 []))) =
      [(5, 4)]"
    using pd [where st = "bench_at 5 []" and t = 0] due
    by (simp add: j thr) (simp add: exact_arith_def)
  have 4: "map_option (\<lambda>st'. numeric_prints (emitted (bench Map.empty [(0, CHR ''d'')]) st'))
     (dispatch exact_arith (bench Map.empty [(0, CHR ''d'')])) = Some [(5, 6)]"
    using pd [where st = "bench Map.empty [(0, CHR ''d'')]"] av by (auto simp: bench_def)
  define boot where
    "boot = power_on exact_arith [(PREF_NAMESPACE, PREF_KEY) \<mapsto> 7] True (\<lambda>k. 0) []"
  have "ads_present boot"
    by (simp add: boot_def power_on_def)
  then obtain st' where s: "setup_sketch exact_arith boot = Some st'"
    "numeric_prints (emitted boot st') = [(calibrationFactor st', 6)]"
    using pd [where st = boot] by blast
  have "calibrationFactor st' = 7"
    using s(1) setup_sketch_eq [of boot exact_arith]
    by (auto simp: boot_def power_on_def prefs_begin_def prefs_getFloat_def)
  with s have 5: "map_option (\<lambda>st'. numeric_prints (emitted boot st'))
     (setup_sketch exact_arith boot) = Some [(7, 6)]"
    by simp
  have le: "fle exact_arith (toFloat exact_arith ''abc'') (flit exact_arith 0)"
    by (simp add: exact_arith_def decimal_abc)
  have nf: "fdiv exact_arith (toFloat exact_arith ''2.5'') 1 = 5 / 2"
    "fmul exact_arith 1 (flit exact_arith 1000) = 1000"
    by (simp_all add: exact_arith_def decimal_2_5)
  have 6: "map_option
     (\<lambda>st'. numeric_prints (emitted (bench Map.empty (operator_input ''abc'' CHR ''y'')) st'))
     (interactiveCalibration exact_arith (bench Map.empty (operator_input ''abc'' CHR ''y''))) =
     Some [(1000, 4)]"
    using pd [where st = "bench Map.empty (operator_input ''abc'' CHR ''y'')" and s = "''abc''"
        and V = 1] acquire_bench_abc [of Map.empty "CHR ''y''"] le
    by (auto simp: nf)
  have gt: "\<not> fle exact_arith (toFloat exact_arith ''2.5'') (flit exact_arith 0)"
    by (simp add: exact_arith_def decimal_2_5)
  define cal where "cal = bench Map.empty (operator_input ''2.5'' CHR ''y'')"
  define cal1 where "cal1 = (bench Map.empty [(1900000, CHR ''y'')])\<lparr>adc_pos := 1600,
          now := 1880000, out := acquire_output exact_arith 1\<rparr>"
  have acq: "calibration_acquire exact_arith cal = Some (1, ''2.5'', cal1)"
    unfolding cal_def cal1_def by (rule acquire_bench_2_5)
  have ib: "inbox cal1 = (1900000, CHR ''y'') # []"
    by (simp add: cal1_def bench_def)
  have "\<exists>st'. interactiveCalibration exact_arith cal = Some st' \<and>
         numeric_prints (emitted cal st') =
           [(fmul exact_arith 1 (flit exact_arith 1000), 4),
            (fdiv exact_arith (toFloat exact_arith ''2.5'') 1, 6)]"
    using pd [where st = cal and s = "''2.5''" and V = 1 and ?st1.0 = cal1 and tr = 1900000
        and r = "CHR ''y''" and rest = "[]"] acq gt ib
    by blast
  then have 7: "map_option (\<lambda>st'. numeric_prints (emitted cal st'))
     (interactiveCalibration exact_arith cal) = Some [(1000, 4), (5 / 2, 6)]"
    by (auto simp: nf)
  show ?thesis
    using 1 2 3 4 5 [unfolded boot_def] 6 7 [unfolded cal_def] by blast
qed

end
